theory Spec2Isabelle
  imports Complex_Main "HOL-Library.Monad_Syntax"
begin

section \<open>The regression package: data model\<close>

text \<open>
  The Go package \<^verbatim>\<open>regression\<close> (file \<^verbatim>\<open>regression.go\<close> and the feature crosses
  beside it) is embedded function by function.

  \<^item> \<^verbatim>\<open>float64\<close> is modelled by \<open>real\<close>: values are copied, added, multiplied and
    divided exactly; rounding, NaN and the infinities are outside the model. Where the
    source divides, the theorems below say when the divisor is non-zero.
  \<^item> A slice is a list value. Two slices of the source never share memory in the model.
  \<^item> A run-time panic (index out of range, a gonum dimension panic) is the error value
    \<open>Panic\<close>; the three package errors keep their names.
  \<^item> A method with a pointer receiver takes the \<open>Regression\<close> record and returns the
    updated record together with its result.
\<close>

type_synonym float64 = real

datatype error = ErrNotEnoughData | ErrTooManyVars | ErrRegressionRun | Panic

text \<open>
  \<^verbatim>\<open>featureCross\<close> is an interface with the single method \<^verbatim>\<open>Calculate\<close>: a function from
  a vector to a vector. \<open>None\<close> stands for a panic inside \<^verbatim>\<open>Calculate\<close>.
\<close>

type_synonym featureCross = "float64 list \<Rightarrow> float64 list option"

record DataPoint =
  Observed :: float64
  Variables :: "float64 list"
  Crosses :: "float64 list"
  Predicted :: float64
  Error :: float64

record Regression =
  Data :: "DataPoint list"
  coeff :: "(int \<times> float64) list"
  R2 :: float64
  VarianceObserved :: float64
  VariancePredicted :: float64
  initialised :: bool
  crosses :: "featureCross list"
  Ready :: bool

text \<open>The zero value \<^verbatim>\<open>&Regression{}\<close> and a data point literal with the two fields the
  callers set.\<close>

definition Regression0 :: Regression where
  "Regression0 = \<lparr>Data = [], coeff = [], R2 = 0, VarianceObserved = 0,
     VariancePredicted = 0, initialised = False, crosses = [], Ready = False\<rparr>"

definition mkDataPoint :: "float64 \<Rightarrow> float64 list \<Rightarrow> DataPoint" where
  "mkDataPoint obs vars =
     \<lparr>Observed = obs, Variables = vars, Crosses = [], Predicted = 0, Error = 0\<rparr>"

subsection \<open>Feature crosses\<close>

text \<open>\<^verbatim>\<open>PowCross(i, power)\<close>: \<^verbatim>\<open>math.Pow\<close> of the input at index \<open>i\<close>, with
  \<^verbatim>\<open>math.Pow\<close> as the parameter \<open>pow\<close>; \<^verbatim>\<open>vars[i]\<close> panics when the index is out of
  range.\<close>

definition PowCross :: "(float64 \<Rightarrow> float64 \<Rightarrow> float64) \<Rightarrow> int \<Rightarrow> float64 \<Rightarrow> featureCross" where
  "PowCross pow i exponent vars =
     (if 0 \<le> i \<and> i < int (length vars) then Some [pow (vars ! nat i) exponent] else None)"

text \<open>\<^verbatim>\<open>MultiplierCross(vars...)\<close>: the product of the inputs at the bound indices;
  \<^verbatim>\<open>input[variableIndex]\<close> panics when the index is out of range.\<close>

fun multiply :: "int list \<Rightarrow> float64 list \<Rightarrow> float64 \<Rightarrow> float64 option" where
  "multiply [] input output = Some output"
| "multiply (variableIndex # vars) input output =
     (if 0 \<le> variableIndex \<and> variableIndex < int (length input)
      then multiply vars input (output * input ! nat variableIndex)
      else None)"

definition MultiplierCross :: "int list \<Rightarrow> featureCross" where
  "MultiplierCross vars input =
     (case multiply vars input 1 of None \<Rightarrow> None | Some output \<Rightarrow> Some [output])"

subsection \<open>Coefficient accessors\<close>

text \<open>
  The map \<^verbatim>\<open>map[int]float64\<close> is an association list in which the first entry of a key
  is its value: \<^verbatim>\<open>m[i] = v\<close> puts \<open>(i, v)\<close> in front, \<^verbatim>\<open>len\<close> counts the distinct keys,
  and a lookup of a missing key gives the zero value.
\<close>

definition len :: "(int \<times> float64) list \<Rightarrow> nat" where
  "len m = length (remdups (map fst m))"

definition lookup :: "(int \<times> float64) list \<Rightarrow> int \<Rightarrow> float64" where
  "lookup m i = (case map_of m i of None \<Rightarrow> 0 | Some c \<Rightarrow> c)"

definition Coeff :: "Regression \<Rightarrow> int \<Rightarrow> float64" where
  "Coeff r i = (if len (coeff r) = 0 then 0 else lookup (coeff r) i)"

definition GetCoeffs :: "Regression \<Rightarrow> float64 list" where
  "GetCoeffs r =
     (if len (coeff r) = 0 then []
      else map (\<lambda>i. lookup (coeff r) (int i)) [0..<len (coeff r)])"

subsection \<open>Predict, AddCross, Train\<close>

text \<open>The first loop of \<^verbatim>\<open>Predict\<close>: \<^verbatim>\<open>vars = append(vars, cross.Calculate(vars)...)\<close>,
  each cross reading the vector as extended so far.\<close>

fun extend :: "featureCross list \<Rightarrow> float64 list \<Rightarrow> float64 list option" where
  "extend [] vars = Some vars"
| "extend (cross # cs) vars =
     (case cross vars of None \<Rightarrow> None | Some out \<Rightarrow> extend cs (vars @ out))"

text \<open>The second loop: \<^verbatim>\<open>p += r.Coeff(j+1) * val\<close> for \<^verbatim>\<open>j, val := range vars\<close>.\<close>

fun accumulate :: "Regression \<Rightarrow> nat \<Rightarrow> float64 list \<Rightarrow> float64 \<Rightarrow> float64" where
  "accumulate r j [] p = p"
| "accumulate r j (val # vals) p =
     accumulate r (j + 1) vals (p + Coeff r (int j + 1) * val)"

definition Predict :: "Regression \<Rightarrow> float64 list \<Rightarrow> error + float64" where
  "Predict r vars =
     (if \<not> Ready r then Inl ErrRegressionRun
      else case extend (crosses r) vars of
             None \<Rightarrow> Inl Panic
           | Some vars' \<Rightarrow> Inr (accumulate r 0 vars' (Coeff r 0)))"

definition AddCross :: "Regression \<Rightarrow> featureCross \<Rightarrow> Regression" where
  "AddCross r cross = r\<lparr>crosses := crosses r @ [cross]\<rparr>"

definition Train :: "Regression \<Rightarrow> DataPoint list \<Rightarrow> Regression" where
  "Train r d =
     (let r1 = r\<lparr>Data := Data r @ d\<rparr>
      in if length (Data r1) > 2 then r1\<lparr>initialised := True\<rparr> else r1)"

subsection \<open>applyCrosses\<close>

text \<open>
  \<^verbatim>\<open>for _, p := range r.Data\<close> binds \<^verbatim>\<open>p\<close> to a copy of the element, and the inner
  loop assigns to \<^verbatim>\<open>p.Crosses\<close>. \<open>crossPoint\<close> is the inner loop on that copy;
  \<open>crossLoop\<close> is the outer loop, which drops the copy at the end of each iteration.
  Nothing is written to \<^verbatim>\<open>r.Data\<close>; what remains of the call is whether a
  \<^verbatim>\<open>Calculate\<close> panicked.
\<close>

fun crossPoint :: "featureCross list \<Rightarrow> DataPoint \<Rightarrow> DataPoint option" where
  "crossPoint [] p = Some p"
| "crossPoint (c # cs) p =
     (case c (Variables p) of
        None \<Rightarrow> None
      | Some out \<Rightarrow> crossPoint cs (p\<lparr>Crosses := out\<rparr>))"

fun crossLoop :: "featureCross list \<Rightarrow> DataPoint list \<Rightarrow> unit option" where
  "crossLoop cs [] = Some ()"
| "crossLoop cs (p # ps) =
     (if length (Crosses p) > 0 then crossLoop cs ps
      else case crossPoint cs p of None \<Rightarrow> None | Some p' \<Rightarrow> crossLoop cs ps)"

definition applyCrosses :: "Regression \<Rightarrow> error + Regression" where
  "applyCrosses r =
     (if length (crosses r) = 0 then Inr r
      else case crossLoop (crosses r) (Data r) of
             None \<Rightarrow> Inl Panic
           | Some u \<Rightarrow> Inr r)"

subsection \<open>Dense matrices (gonum)\<close>

text \<open>
  A \<^verbatim>\<open>mat.Dense\<close> is a list of rows. \<^verbatim>\<open>NewDense(r, c, nil)\<close> is the zero matrix;
  \<^verbatim>\<open>Set\<close> and \<^verbatim>\<open>At\<close> panic outside the matrix, \<^verbatim>\<open>Mul\<close> panics when the inner
  dimensions differ.
\<close>

type_synonym Dense = "float64 list list"

definition NewDense :: "nat \<Rightarrow> nat \<Rightarrow> Dense" where
  "NewDense r c = replicate r (replicate c 0)"

definition dense_Set :: "Dense \<Rightarrow> nat \<Rightarrow> nat \<Rightarrow> float64 \<Rightarrow> Dense option" where
  "dense_Set m i j v =
     (if i < length m \<and> j < length (m ! i) then Some (m[i := (m ! i)[j := v]]) else None)"

definition dense_At :: "Dense \<Rightarrow> nat \<Rightarrow> nat \<Rightarrow> float64 option" where
  "dense_At m i j = (if i < length m \<and> j < length (m ! i) then Some (m ! i ! j) else None)"

definition dense_cols :: "Dense \<Rightarrow> nat" where
  "dense_cols m = (case m of [] \<Rightarrow> 0 | row # rest \<Rightarrow> length row)"

definition dense_T :: "Dense \<Rightarrow> Dense" where
  "dense_T m = map (\<lambda>j. map (\<lambda>row. row ! j) m) [0..<dense_cols m]"

definition dense_Mul :: "Dense \<Rightarrow> Dense \<Rightarrow> Dense option" where
  "dense_Mul a b =
     (if dense_cols a = length b
      then Some (map (\<lambda>row. map (\<lambda>j. \<Sum>k\<leftarrow>[0..<length b]. row ! k * b ! k ! j)
                               [0..<dense_cols b]) a)
      else None)"

subsection \<open>Design matrix\<close>

text \<open>The body of the loop over the observations in \<^verbatim>\<open>Run\<close>: the two inner
  \<^verbatim>\<open>range\<close> loops, then one row, then all rows.\<close>

fun setVariables :: "Dense \<Rightarrow> nat \<Rightarrow> nat \<Rightarrow> float64 list \<Rightarrow> Dense option" where
  "setVariables m i j [] = Some m"
| "setVariables m i j (val # vals) =
     (case dense_Set m i (j + 1) val of
        None \<Rightarrow> None
      | Some m' \<Rightarrow> setVariables m' i (j + 1) vals)"

fun setCrosses :: "Dense \<Rightarrow> nat \<Rightarrow> nat \<Rightarrow> nat \<Rightarrow> float64 list \<Rightarrow> Dense option" where
  "setCrosses m i lenVars j [] = Some m"
| "setCrosses m i lenVars j (val # vals) =
     (case dense_Set m i (lenVars + j) val of
        None \<Rightarrow> None
      | Some m' \<Rightarrow> setCrosses m' i lenVars (j + 1) vals)"

fun fillRows :: "DataPoint list \<Rightarrow> nat \<Rightarrow> Dense \<Rightarrow> Dense \<Rightarrow> (Dense \<times> Dense) option" where
  "fillRows [] i observed variables = Some (observed, variables)"
| "fillRows (d # ds) i observed variables =
     do {
       observed1 \<leftarrow> dense_Set observed i 0 (Observed d);
       variables1 \<leftarrow> dense_Set variables i 0 1;
       variables2 \<leftarrow> setVariables variables1 i 0 (Variables d);
       variables3 \<leftarrow> setCrosses variables2 i (length (Variables d)) 0 (Crosses d);
       fillRows ds (i + 1) observed1 variables3
     }"

definition buildMatrices :: "DataPoint list \<Rightarrow> nat \<Rightarrow> (Dense \<times> Dense) option" where
  "buildMatrices ds numOfvars =
     fillRows ds 0 (NewDense (length ds) 1) (NewDense (length ds) (numOfvars + 1))"

subsection \<open>Least-squares solve\<close>

text \<open>
  The QR factorisation is gonum's and is a parameter \<open>qr\<close> of the model: it maps the
  design matrix to the pair \<open>(Q, R)\<close> that \<^verbatim>\<open>QTo\<close> and \<^verbatim>\<open>RTo\<close> deliver. The
  back-substitution is the package's own loop: \<open>backInner\<close> is the loop over \<open>j\<close>,
  \<open>backSubst\<close> the loop over \<open>i\<close> from \<open>n - 1\<close> down to \<open>0\<close>.
\<close>

type_synonym factorize = "Dense \<Rightarrow> Dense \<times> Dense"

fun backInner :: "Dense \<Rightarrow> nat \<Rightarrow> nat list \<Rightarrow> float64 list \<Rightarrow> float64 list option" where
  "backInner reg i [] c = Some c"
| "backInner reg i (j # js) c =
     (case dense_At reg i j of
        None \<Rightarrow> None
      | Some x \<Rightarrow> backInner reg i js (c[i := c ! i - c ! j * x]))"

fun backSubst :: "Dense \<Rightarrow> Dense \<Rightarrow> nat \<Rightarrow> nat list \<Rightarrow> float64 list \<Rightarrow> float64 list option"
  where
  "backSubst qty reg n [] c = Some c"
| "backSubst qty reg n (i # is) c =
     do {
       y \<leftarrow> dense_At qty i 0;
       c1 \<leftarrow> backInner reg i [i + 1..<n] (c[i := y]);
       x \<leftarrow> dense_At reg i i;
       backSubst qty reg n is (c1[i := c1 ! i / x])
     }"

definition solve :: "factorize \<Rightarrow> Dense \<Rightarrow> Dense \<Rightarrow> nat \<Rightarrow> float64 list option" where
  "solve qr variables observed n =
     (case qr variables of (q, reg) \<Rightarrow>
        do {
          qty \<leftarrow> dense_Mul (dense_T q) observed;
          backSubst qty reg n (rev [0..<n]) (replicate n 0)
        })"

text \<open>\<^verbatim>\<open>for i, val := range c { r.coeff[i] = val }\<close> on a fresh map.\<close>

fun setCoeffs :: "nat \<Rightarrow> float64 list \<Rightarrow> (int \<times> float64) list \<Rightarrow> (int \<times> float64) list"
  where
  "setCoeffs i [] m = m"
| "setCoeffs i (val # vals) m = setCoeffs (i + 1) vals ((int i, val) # m)"

subsection \<open>Statistics\<close>

text \<open>
  \<^verbatim>\<open>calcPredicted\<close> writes \<^verbatim>\<open>r.Data[i]\<close> by index, one observation after the other, and
  drops the error of \<^verbatim>\<open>Predict\<close> (whose value is then 0). \<^verbatim>\<open>Predict\<close> reads the flag,
  the crosses and the coefficients only, so the observations already rewritten do not
  change its result. A panic inside \<^verbatim>\<open>Predict\<close> leaves the remaining observations as
  they were.
\<close>

fun predictData :: "Regression \<Rightarrow> DataPoint list \<Rightarrow> error option \<times> DataPoint list" where
  "predictData r [] = (None, [])"
| "predictData r (d # ds) =
     (case Predict r (Variables d) of
        Inl Panic \<Rightarrow> (Some Panic, d # ds)
      | Inl e \<Rightarrow>
          (case predictData r ds of
             (e', ds') \<Rightarrow> (e', d\<lparr>Predicted := 0, Error := 0 - Observed d\<rparr> # ds'))
      | Inr p \<Rightarrow>
          (case predictData r ds of
             (e', ds') \<Rightarrow> (e', d\<lparr>Predicted := p, Error := p - Observed d\<rparr> # ds')))"

definition calcPredicted :: "Regression \<Rightarrow> error option \<times> Regression" where
  "calcPredicted r = (case predictData r (Data r) of (e, ds) \<Rightarrow> (e, r\<lparr>Data := ds\<rparr>))"

definition calcVariance :: "Regression \<Rightarrow> Regression" where
  "calcVariance r =
     (let observations = length (Data r);
          obtotal = foldl (\<lambda>t d. t + Observed d) 0 (Data r);
          prtotal = foldl (\<lambda>t d. t + Predicted d) 0 (Data r);
          obaverage = obtotal / real observations;
          praverage = prtotal / real observations;
          obvar = foldl (\<lambda>t d. t + (Observed d - obaverage) ^ 2) 0 (Data r);
          prvar = foldl (\<lambda>t d. t + (Predicted d - praverage) ^ 2) 0 (Data r)
      in r\<lparr>VarianceObserved := obvar / real observations,
            VariancePredicted := prvar / real observations\<rparr>)"

definition calcR2 :: "Regression \<Rightarrow> Regression" where
  "calcR2 r = r\<lparr>R2 := VariancePredicted r / VarianceObserved r\<rparr>"

subsection \<open>Run\<close>

text \<open>The result is the returned error (\<open>None\<close> for \<^verbatim>\<open>nil\<close>) and the state the call
  leaves behind, also when it returns an error or panics.\<close>

definition Run :: "factorize \<Rightarrow> Regression \<Rightarrow> error option \<times> Regression" where
  "Run qr r =
     (if \<not> initialised r then (Some ErrNotEnoughData, r)
      else case applyCrosses r of
        Inl e \<Rightarrow> (Some e, r)
      | Inr r1 \<Rightarrow>
          (let r2 = r1\<lparr>Ready := True\<rparr>;
               observations = length (Data r2)
           in case Data r2 of
                [] \<Rightarrow> (Some Panic, r2)
              | d0 # rest \<Rightarrow>
                  (let numOfvars = length (Variables d0) + length (Crosses d0)
                   in if observations < numOfvars + 1 then (Some ErrTooManyVars, r2)
                      else case buildMatrices (Data r2) numOfvars of
                        None \<Rightarrow> (Some Panic, r2)
                      | Some (observed, variables) \<Rightarrow>
                          (case solve qr variables observed (numOfvars + 1) of
                             None \<Rightarrow> (Some Panic, r2)
                           | Some c \<Rightarrow>
                               (case calcPredicted (r2\<lparr>coeff := setCoeffs 0 c []\<rparr>) of
                                  (Some e, r4) \<Rightarrow> (Some e, r4)
                                | (None, r4) \<Rightarrow> (None, calcR2 (calcVariance r4)))))))"

subsection \<open>MakeDataPoints\<close>

text \<open>
  The three loops of \<^verbatim>\<open>MakeDataPoints\<close> and \<^verbatim>\<open>perverseMakeDataPoints\<close>. The guard
  \<^verbatim>\<open>obsIndex != 0 && obsIndex != len(a[0])-1\<close> reads \<^verbatim>\<open>a[0]\<close> only when
  \<^verbatim>\<open>obsIndex\<close> is not 0, and panics there on an empty table.
\<close>

fun firstColumn :: "float64 list list \<Rightarrow> error + DataPoint list" where
  "firstColumn [] = Inr []"
| "firstColumn (r # rs) =
     (case r of
        [] \<Rightarrow> Inl Panic
      | x # xs \<Rightarrow>
          (case firstColumn rs of
             Inl e \<Rightarrow> Inl e
           | Inr retVal \<Rightarrow> Inr (mkDataPoint x xs # retVal)))"

fun lastColumn :: "int \<Rightarrow> float64 list list \<Rightarrow> error + DataPoint list" where
  "lastColumn lastIdx [] = Inr []"
| "lastColumn lastIdx (r # rs) =
     (if 0 \<le> lastIdx \<and> lastIdx < int (length r)
      then (case lastColumn lastIdx rs of
              Inl e \<Rightarrow> Inl e
            | Inr retVal \<Rightarrow> Inr (mkDataPoint (r ! nat lastIdx) (take (nat lastIdx) r) # retVal))
      else Inl Panic)"

fun others :: "int \<Rightarrow> int \<Rightarrow> float64 list \<Rightarrow> float64 list" where
  "others i obsIndex [] = []"
| "others i obsIndex (c # cs) =
     (if i = obsIndex then others (i + 1) obsIndex cs
      else c # others (i + 1) obsIndex cs)"

fun perverseMakeDataPoints :: "float64 list list \<Rightarrow> int \<Rightarrow> error + DataPoint list" where
  "perverseMakeDataPoints [] obsIndex = Inr []"
| "perverseMakeDataPoints (r # rs) obsIndex =
     (if 0 \<le> obsIndex \<and> obsIndex < int (length r)
      then (case perverseMakeDataPoints rs obsIndex of
              Inl e \<Rightarrow> Inl e
            | Inr retVal \<Rightarrow>
                Inr (mkDataPoint (r ! nat obsIndex) (others 0 obsIndex r) # retVal))
      else Inl Panic)"

definition MakeDataPoints :: "float64 list list \<Rightarrow> int \<Rightarrow> error + DataPoint list" where
  "MakeDataPoints a obsIndex =
     (if obsIndex = 0 then firstColumn a
      else case a of
        [] \<Rightarrow> Inl Panic
      | a0 # rest \<Rightarrow>
          if obsIndex \<noteq> int (length a0) - 1 then perverseMakeDataPoints a obsIndex
          else lastColumn (int (length a0) - 1) a)"

subsection \<open>Sequences of calls\<close>

text \<open>
  A client drives a \<^verbatim>\<open>Regression\<close> through its methods, starting from the zero value.
  \<open>trained\<close> collects, in order, every data point handed to \<^verbatim>\<open>Train\<close>.
\<close>

datatype call =
    CallTrain "DataPoint list"
  | CallAddCross featureCross
  | CallRun
  | CallPredict "float64 list"

fun doCall :: "factorize \<Rightarrow> Regression \<Rightarrow> call \<Rightarrow> Regression" where
  "doCall qr r (CallTrain d) = Train r d"
| "doCall qr r (CallAddCross cross) = AddCross r cross"
| "doCall qr r CallRun = snd (Run qr r)"
| "doCall qr r (CallPredict vars) = r"

definition calls :: "factorize \<Rightarrow> call list \<Rightarrow> Regression" where
  "calls qr cs = foldl (doCall qr) Regression0 cs"

fun trained :: "call list \<Rightarrow> DataPoint list" where
  "trained [] = []"
| "trained (CallTrain d # cs) = d @ trained cs"
| "trained (c # cs) = trained cs"

subsection \<open>A worked example\<close>

text \<open>
  Four observations scattered around \<open>y = 2 + x\<close>. Their design matrix has the rows
  \<open>[1, x]\<close>, and
  \<open>exampleQ\<close>, \<open>exampleR\<close> are a QR factorisation of it with rational entries:
  \<open>exampleQ\<close> is orthogonal, \<open>exampleR\<close> is upper triangular and their product is the
  design matrix (lemma \<open>example_factorisation\<close>).
\<close>

definition exampleData :: "DataPoint list" where
  "exampleData = [mkDataPoint 6 [3], mkDataPoint 3 [1], mkDataPoint 4 [3], mkDataPoint 3 [1]]"

definition exampleQ :: Dense where
  "exampleQ = [[1/2, 1/2, 1/2, 1/2], [1/2, -1/2, 1/2, -1/2],
               [1/2, 1/2, -1/2, -1/2], [1/2, -1/2, -1/2, 1/2]]"

definition exampleR :: Dense where
  "exampleR = [[2, 4], [0, 2], [0, 0], [0, 0]]"

definition exampleQR :: factorize where
  "exampleQR X = (exampleQ, exampleR)"

text \<open>A ready model with the coefficients \<open>[2, 1]\<close> and two crosses; the second cross
  reads position 1, which is the output of the first.\<close>

definition readyExample :: Regression where
  "readyExample = Regression0\<lparr>coeff := setCoeffs 0 [2, 1] [], Ready := True,
      crosses := [MultiplierCross [0, 0], MultiplierCross [0, 1]]\<rparr>"

text \<open>The worked example with a cross registered: the square of variable 0.\<close>

definition exampleRegression :: Regression where
  "exampleRegression = AddCross (Train Regression0 exampleData) (MultiplierCross [0, 0])"

text \<open>Three observations that carry cross values of their own (\<^verbatim>\<open>Crosses\<close> is an
  exported field of \<^verbatim>\<open>DataPoint\<close>).\<close>

definition crossedData :: "DataPoint list" where
  "crossedData =
     [\<lparr>Observed = 7, Variables = [2], Crosses = [4], Predicted = 0, Error = 0\<rparr>,
      \<lparr>Observed = 9, Variables = [3], Crosses = [9], Predicted = 0, Error = 0\<rparr>,
      \<lparr>Observed = 13, Variables = [5], Crosses = [25], Predicted = 0, Error = 0\<rparr>]"

definition wideData :: "DataPoint list" where
  "wideData = [mkDataPoint 1 [1, 2, 3], mkDataPoint 2 [4, 5, 6], mkDataPoint 3 [7, 8, 9]]"

text \<open>Stores for the size check: the three wide observations with a cross registered;
  three observations of one variable that carry two cross values each; the worked example
  with three crosses registered; and two stores that are not fit-eligible, one built by
  \<^verbatim>\<open>Train\<close> and \<^verbatim>\<open>AddCross\<close>, one a literal whose exported fields hold earlier
  values.\<close>

definition wideCrossed :: Regression where
  "wideCrossed = AddCross (Train Regression0 wideData) (MultiplierCross [0, 1])"

definition storedCrosses :: "DataPoint list" where
  "storedCrosses =
     [\<lparr>Observed = 7, Variables = [2], Crosses = [4, 8], Predicted = 0, Error = 0\<rparr>,
      \<lparr>Observed = 9, Variables = [3], Crosses = [9, 27], Predicted = 0, Error = 0\<rparr>,
      \<lparr>Observed = 13, Variables = [5], Crosses = [25, 125], Predicted = 0, Error = 0\<rparr>]"

definition threeCrosses :: Regression where
  "threeCrosses =
     AddCross (AddCross exampleRegression (MultiplierCross [0, 0, 0])) (MultiplierCross [0, 0, 0, 0])"

definition twoPoints :: Regression where
  "twoPoints =
     AddCross (Train Regression0
       [\<lparr>Observed = 6, Variables = [3], Crosses = [9], Predicted = 0, Error = 0\<rparr>,
        \<lparr>Observed = 3, Variables = [1], Crosses = [], Predicted = 0, Error = 0\<rparr>])
       (MultiplierCross [0, 0])"

definition staleFields :: Regression where
  "staleFields =
     \<lparr>Data = [\<lparr>Observed = 6, Variables = [3], Crosses = [9], Predicted = 5, Error = - 1\<rparr>,
              \<lparr>Observed = 3, Variables = [1], Crosses = [], Predicted = 3, Error = 0\<rparr>],
      coeff = [(1, 1), (0, 2)], R2 = 2 / 3, VarianceObserved = 3 / 2, VariancePredicted = 1,
      initialised = False, crosses = [MultiplierCross [0, 0]], Ready = False\<rparr>"

subsection \<open>Invariants used in the proofs\<close>

text \<open>\<open>fitted r r'\<close>: the state \<open>r'\<close> has the flag \<^verbatim>\<open>initialised\<close>, the registered
  crosses and, observation by observation, the observed value, the variables and the
  crosses of \<open>r\<close>.\<close>

definition fitted :: "Regression \<Rightarrow> Regression \<Rightarrow> bool" where
  "fitted r r' \<longleftrightarrow>
     initialised r' = initialised r \<and> crosses r' = crosses r \<and>
     map Observed (Data r') = map Observed (Data r) \<and>
     map Variables (Data r') = map Variables (Data r) \<and>
     map Crosses (Data r') = map Crosses (Data r)"

text \<open>\<open>storeInv r ds\<close>: the store of \<open>r\<close> holds the data points \<open>ds\<close> in order (up to the
  fields a fit writes), and \<^verbatim>\<open>initialised\<close> says whether there are more than two.\<close>

definition storeInv :: "Regression \<Rightarrow> DataPoint list \<Rightarrow> bool" where
  "storeInv r ds \<longleftrightarrow>
     map Observed (Data r) = map Observed ds \<and>
     map Variables (Data r) = map Variables ds \<and>
     map Crosses (Data r) = map Crosses ds \<and>
     initialised r = (2 < length ds)"

text \<open>A row of a table with column \<open>k\<close> taken out as the observed value.\<close>

definition withoutColumn :: "nat \<Rightarrow> float64 list \<Rightarrow> DataPoint" where
  "withoutColumn k row = mkDataPoint (row ! k) (take k row @ drop (k + 1) row)"


text \<open>The row that \<^verbatim>\<open>Run\<close> writes into the design matrix for one observation with
  \<open>v\<close> variables and \<open>k\<close> stored cross values.\<close>

definition designRow :: "DataPoint \<Rightarrow> float64 list" where
  "designRow d =
     (let v = length (Variables d); k = length (Crosses d)
      in take v (1 # Variables d) @ Crosses d @ drop (v + k) (1 # Variables d @ replicate k 0))"

section \<open>What a call of Run leaves unchanged\<close>

lemma applyCrosses_cases: "applyCrosses r = Inl Panic \<or> applyCrosses r = Inr r"
  by (simp add: applyCrosses_def split: option.splits)

lemma predictData_fst: "fst (predictData r ds) = None \<or> fst (predictData r ds) = Some Panic"
  by (induction ds) (auto split: sum.splits error.splits prod.splits)

lemma predictData_Observed: "map Observed (snd (predictData r ds)) = map Observed ds"
  by (induction ds) (auto split: sum.splits error.splits prod.splits)

lemma predictData_Variables: "map Variables (snd (predictData r ds)) = map Variables ds"
  by (induction ds) (auto split: sum.splits error.splits prod.splits)

lemma predictData_Crosses: "map Crosses (snd (predictData r ds)) = map Crosses ds"
  by (induction ds) (auto split: sum.splits error.splits prod.splits)

lemma calcPredicted_fst: "fst (calcPredicted r) = None \<or> fst (calcPredicted r) = Some Panic"
  using predictData_fst [of r "Data r"] by (auto simp: calcPredicted_def split: prod.splits)

lemma calcPredicted_Some: "calcPredicted r = (Some e, r') \<Longrightarrow> e = Panic"
  using calcPredicted_fst [of r] by auto

lemma calcPredicted_state: "snd (calcPredicted r) = r\<lparr>Data := snd (predictData r (Data r))\<rparr>"
  by (simp add: calcPredicted_def split: prod.splits)

lemma fitted_refl: "fitted r r"
  by (simp add: fitted_def)

lemma fitted_calcPredicted:
  "calcPredicted (r\<lparr>Ready := b, coeff := c\<rparr>) = (e, r') \<Longrightarrow> fitted r r'"
  using calcPredicted_state [of "r\<lparr>Ready := b, coeff := c\<rparr>"]
  by (simp add: fitted_def predictData_Observed predictData_Variables predictData_Crosses)

lemma fitted_stats: "fitted r r' \<Longrightarrow> fitted r (calcR2 (calcVariance r'))"
  by (simp add: fitted_def calcR2_def calcVariance_def Let_def)

lemma Run_fitted: "fitted r (snd (Run qr r))"
proof (cases "initialised r")
  case False
  then show ?thesis by (simp add: Run_def fitted_refl)
next
  case True
  have ready: "fitted r (r\<lparr>Ready := True\<rparr>)" by (simp add: fitted_def)
  from applyCrosses_cases [of r] show ?thesis
  proof
    assume "applyCrosses r = Inl Panic"
    with True show ?thesis by (simp add: Run_def fitted_refl)
  next
    assume ok: "applyCrosses r = Inr r"
    show ?thesis
      using True ok ready
      by (auto simp: Run_def Let_def
               split: list.splits option.splits prod.splits if_splits
               intro: fitted_stats fitted_calcPredicted)
  qed
qed

lemma Run_initialised_error:
  "initialised r \<Longrightarrow> fst (Run qr r) \<noteq> Some ErrNotEnoughData"
  using applyCrosses_cases [of r]
  by (auto simp: Run_def Let_def split: list.splits option.splits prod.splits if_splits
           dest: calcPredicted_Some)

section \<open>The insufficient-data error\<close>

text \<open>
  Claim C10. If \<^verbatim>\<open>Run\<close> returns \<^verbatim>\<open>ErrNotEnoughData\<close>, the state is left as it was:
  the flag \<^verbatim>\<open>Ready\<close>, every observation (its crosses included), the coefficient
  table, the variances and R2 all keep their values. The error is returned by the first
  statement of \<^verbatim>\<open>Run\<close> only; no later path returns it.
\<close>

theorem Run_insufficient_unchanged:
  "fst (Run qr r) = Some ErrNotEnoughData \<Longrightarrow> snd (Run qr r) = r"
  using Run_initialised_error [of r qr] by (cases "initialised r") (simp_all add: Run_def)

theorem Run_insufficient_unchanged_witness:
  "fst (Run exampleQR twoPoints) = Some ErrNotEnoughData \<and>
   snd (Run exampleQR twoPoints) = twoPoints \<and>
   crosses twoPoints = [MultiplierCross [0, 0]] \<and>
   Data (snd (Run exampleQR twoPoints)) =
     [\<lparr>Observed = 6, Variables = [3], Crosses = [9], Predicted = 0, Error = 0\<rparr>,
      \<lparr>Observed = 3, Variables = [1], Crosses = [], Predicted = 0, Error = 0\<rparr>] \<and>
   Ready (snd (Run exampleQR twoPoints)) = False \<and>
   fst (Run exampleQR staleFields) = Some ErrNotEnoughData \<and>
   snd (Run exampleQR staleFields) =
     \<lparr>Data = [\<lparr>Observed = 6, Variables = [3], Crosses = [9], Predicted = 5, Error = - 1\<rparr>,
              \<lparr>Observed = 3, Variables = [1], Crosses = [], Predicted = 3, Error = 0\<rparr>],
      coeff = [(1, 1), (0, 2)], R2 = 2 / 3, VarianceObserved = 3 / 2, VariancePredicted = 1,
      initialised = False, crosses = [MultiplierCross [0, 0]], Ready = False\<rparr>"
proof -
  have i: "\<not> initialised twoPoints"
    by (simp add: twoPoints_def AddCross_def Train_def Regression0_def Let_def)
  then have e1: "fst (Run exampleQR twoPoints) = Some ErrNotEnoughData"
    by (simp add: Run_def)
  have s1: "snd (Run exampleQR twoPoints) = twoPoints"
    by (rule Run_insufficient_unchanged [OF e1])
  have c: "crosses twoPoints = [MultiplierCross [0, 0]]"
    by (simp add: twoPoints_def AddCross_def Train_def Regression0_def Let_def)
  have d: "Data twoPoints =
     [\<lparr>Observed = 6, Variables = [3], Crosses = [9], Predicted = 0, Error = 0\<rparr>,
      \<lparr>Observed = 3, Variables = [1], Crosses = [], Predicted = 0, Error = 0\<rparr>]"
    by (simp add: twoPoints_def AddCross_def Train_def Regression0_def Let_def)
  have rd: "Ready twoPoints = False"
    by (simp add: twoPoints_def AddCross_def Train_def Regression0_def Let_def)
  have e2: "fst (Run exampleQR staleFields) = Some ErrNotEnoughData"
    by (simp add: Run_def staleFields_def)
  have s2: "snd (Run exampleQR staleFields) = staleFields"
    by (rule Run_insufficient_unchanged [OF e2])
  from e1 s1 c d rd e2 s2 show ?thesis by (simp add: staleFields_def)
qed

lemma Train_Data: "Data (Train r d) = Data r @ d"
  by (simp add: Train_def Let_def)

lemma Train_initialised: "initialised (Train r d) = (initialised r \<or> 2 < length (Data r @ d))"
  by (simp add: Train_def Let_def)

lemma storeInv_length: "storeInv r ds \<Longrightarrow> length (Data r) = length ds"
  unfolding storeInv_def by (metis length_map)

lemma storeInv_doCall:
  assumes "storeInv r ds"
  shows "storeInv (doCall qr r c) (ds @ trained [c])"
proof (cases c)
  case (CallTrain d)
  then show ?thesis
    using assms storeInv_length [OF assms]
    by (auto simp: storeInv_def Train_Data Train_initialised)
next
  case (CallAddCross cross)
  then show ?thesis using assms by (simp add: storeInv_def AddCross_def)
next
  case CallRun
  then show ?thesis using assms Run_fitted [of r qr] by (simp add: storeInv_def fitted_def)
next
  case (CallPredict vars)
  then show ?thesis using assms by simp
qed

lemma trained_append: "trained (cs @ cs') = trained cs @ trained cs'"
  by (induction cs rule: trained.induct) simp_all

lemma storeInv_calls: "storeInv (calls qr cs) (trained cs)"
proof (induction cs rule: rev_induct)
  case Nil
  then show ?case by (simp add: calls_def storeInv_def Regression0_def)
next
  case (snoc c cs)
  then show ?case
    using storeInv_doCall [of "calls qr cs" "trained cs" qr c]
    by (simp add: calls_def trained_append)
qed

text \<open>
  Claim C8. After any sequence \<open>cs\<close> of calls on a fresh \<^verbatim>\<open>Regression\<close>, \<^verbatim>\<open>Run\<close> returns
  \<^verbatim>\<open>ErrNotEnoughData\<close> exactly when fewer than 3 observations have been trained so far;
  whatever calls \<open>cs'\<close> follow, the answer depends on the number trained only, so a store
  that has reached 3 observations passes the check for good. \<^verbatim>\<open>Train\<close> appends its
  records at the end of the store and sets \<^verbatim>\<open>initialised\<close> once the store holds more
  than 2; the store lists the observed values and variables of the trained points in
  the order of training.
\<close>

theorem Run_not_enough_data_iff:
  "(fst (Run qr (calls qr cs)) = Some ErrNotEnoughData) = (length (trained cs) < 3) \<and>
   (fst (Run qr (calls qr (cs @ cs'))) = Some ErrNotEnoughData) =
     (length (trained cs) + length (trained cs') < 3) \<and>
   Data (Train r d) = Data r @ d \<and>
   initialised (Train r d) = (initialised r \<or> 2 < length (Data r @ d)) \<and>
   map Observed (Data (calls qr cs)) = map Observed (trained cs) \<and>
   map Variables (Data (calls qr cs)) = map Variables (trained cs)"
proof -
  have iff: "(fst (Run qr (calls qr xs)) = Some ErrNotEnoughData) = (length (trained xs) < 3)"
    for xs
  proof (cases "initialised (calls qr xs)")
    case True
    then show ?thesis
      using storeInv_calls [of qr xs] Run_initialised_error [of "calls qr xs" qr]
      by (auto simp: storeInv_def)
  next
    case False
    then show ?thesis
      using storeInv_calls [of qr xs] by (auto simp: storeInv_def Run_def)
  qed
  show ?thesis
    using iff [of cs] iff [of "cs @ cs'"] storeInv_calls [of qr cs]
    by (simp add: trained_append Train_Data Train_initialised storeInv_def)
qed

section \<open>The underdetermined-system error and the Ready flag\<close>

text \<open>When \<^verbatim>\<open>Run\<close> sets \<^verbatim>\<open>Ready\<close>, and when it returns \<^verbatim>\<open>ErrTooManyVars\<close>, for any
  state: both depend on the flag \<^verbatim>\<open>initialised\<close> and on \<^verbatim>\<open>applyCrosses\<close> not panicking,
  and \<^verbatim>\<open>Ready\<close> does not depend on the outcome of the size check.\<close>

lemma calcPredicted_Ready: "calcPredicted r = (e, r') \<Longrightarrow> Ready r' = Ready r"
  by (auto simp: calcPredicted_def split: prod.splits)

lemma stats_Ready: "Ready (calcR2 (calcVariance r)) = Ready r"
  by (simp add: calcR2_def calcVariance_def Let_def)

lemma Run_sets_Ready:
  "Ready (snd (Run qr r)) = (Ready r \<or> (initialised r \<and> applyCrosses r = Inr r))"
proof (cases "initialised r \<and> applyCrosses r = Inr r")
  case False
  with applyCrosses_cases [of r] show ?thesis by (auto simp: Run_def)
next
  case True
  then show ?thesis
    by (auto simp: Run_def Let_def stats_Ready
        split: list.splits option.splits prod.splits if_splits dest: calcPredicted_Ready)
qed

lemma Run_too_many_vars_iff:
  "(fst (Run qr r) = Some ErrTooManyVars) =
     (initialised r \<and> applyCrosses r = Inr r \<and>
      (\<exists>d0 rest. Data r = d0 # rest \<and>
         length (Data r) < length (Variables d0) + length (Crosses d0) + 1))"
proof (cases "initialised r \<and> applyCrosses r = Inr r")
  case False
  with applyCrosses_cases [of r] show ?thesis by (auto simp: Run_def)
next
  case True
  then show ?thesis
    by (auto simp: Run_def Let_def
        split: list.splits option.splits prod.splits if_splits dest: calcPredicted_Some)
qed

text \<open>
  Claim C3 (the code departs from it). \<^verbatim>\<open>Run\<close> sets \<^verbatim>\<open>Ready\<close> before it compares the
  number of observations with the number of variables. On three observations of three
  variables each, \<^verbatim>\<open>Run\<close> returns \<^verbatim>\<open>ErrTooManyVars\<close>, no fit has succeeded, and
  \<^verbatim>\<open>Predict\<close> returns the number 0 with no error, for the empty vector and for a
  vector of three variables.
\<close>

theorem Predict_after_failed_Run:
  "fst (Run exampleQR (Train Regression0 wideData)) = Some ErrTooManyVars \<and>
   Predict (snd (Run exampleQR (Train Regression0 wideData))) [] = Inr 0 \<and>
   Predict (snd (Run exampleQR (Train Regression0 wideData))) [1, 2, 3] = Inr 0"
  by (simp add: Run_def Train_def Regression0_def wideData_def mkDataPoint_def applyCrosses_def
        Predict_def Coeff_def len_def Let_def)

text \<open>
  Claim C5, as stated: whenever the observation count is below variables + crosses + 1,
  \<^verbatim>\<open>Run\<close> reports \<^verbatim>\<open>ErrTooManyVars\<close>. Two observations of two variables each are such
  a store, and \<^verbatim>\<open>Run\<close> reports \<^verbatim>\<open>ErrNotEnoughData\<close> instead: the check of
  \<^verbatim>\<open>initialised\<close> comes first.
\<close>

theorem Run_too_many_vars_counterexample:
  "length (Data (Train Regression0 [mkDataPoint 1 [1, 2], mkDataPoint 2 [3, 4]]))
     < length [1, 2 :: float64] + 0 + 1 \<and>
   fst (Run exampleQR (Train Regression0 [mkDataPoint 1 [1, 2], mkDataPoint 2 [3, 4]]))
     = Some ErrNotEnoughData \<and>
   fst (Run exampleQR (Train Regression0 [mkDataPoint 1 [1, 2], mkDataPoint 2 [3, 4]]))
     \<noteq> Some ErrTooManyVars"
  by (simp add: Run_def Train_def Regression0_def Let_def)

text \<open>
  Claim C5, amended. On a store that is fit-eligible (\<^verbatim>\<open>initialised\<close>, that is, at least
  3 observations trained), whatever crosses are registered as long as none of them
  panics on a stored observation, if the observation count is below the number of
  variables of the first observation, plus the number of cross values stored on it,
  plus 1, then \<^verbatim>\<open>Run\<close> reports \<^verbatim>\<open>ErrTooManyVars\<close>; on a store that is not fit-eligible
  \<^verbatim>\<open>Run\<close> reports \<^verbatim>\<open>ErrNotEnoughData\<close>. The count of cross values is the stored one:
  outputs of registered crosses never reach the store, and
  \<open>registered_crosses_uncounted\<close> below shows a fit-eligible store on which the claim
  fails for that reason alone.
\<close>

theorem Run_too_many_vars:
  "(initialised r \<and> applyCrosses r = Inr r \<and> Data r = d0 # rest \<and>
    length (Data r) < length (Variables d0) + length (Crosses d0) + 1 \<longrightarrow>
      fst (Run qr r) = Some ErrTooManyVars) \<and>
   (\<not> initialised r \<longrightarrow> fst (Run qr r) = Some ErrNotEnoughData)"
proof (intro conjI impI)
  assume "initialised r \<and> applyCrosses r = Inr r \<and> Data r = d0 # rest \<and>
    length (Data r) < length (Variables d0) + length (Crosses d0) + 1"
  then show "fst (Run qr r) = Some ErrTooManyVars"
    using Run_too_many_vars_iff [of qr r] by blast
next
  assume "\<not> initialised r"
  then show "fst (Run qr r) = Some ErrNotEnoughData"
    by (simp add: Run_def)
qed

theorem Run_too_many_vars_witness:
  "initialised wideCrossed \<and>
   crosses wideCrossed = [MultiplierCross [0, 1]] \<and>
   applyCrosses wideCrossed = Inr wideCrossed \<and>
   Data wideCrossed =
     mkDataPoint 1 [1, 2, 3] # [mkDataPoint 2 [4, 5, 6], mkDataPoint 3 [7, 8, 9]] \<and>
   length (Data wideCrossed) <
     length (Variables (mkDataPoint 1 [1, 2, 3])) + length (Crosses (mkDataPoint 1 [1, 2, 3])) + 1 \<and>
   fst (Run exampleQR wideCrossed) = Some ErrTooManyVars \<and>
   initialised (Train Regression0 storedCrosses) \<and>
   applyCrosses (Train Regression0 storedCrosses) = Inr (Train Regression0 storedCrosses) \<and>
   Data (Train Regression0 storedCrosses) = hd storedCrosses # tl storedCrosses \<and>
   length (Data (Train Regression0 storedCrosses)) <
     length (Variables (hd storedCrosses)) + length (Crosses (hd storedCrosses)) + 1 \<and>
   fst (Run exampleQR (Train Regression0 storedCrosses)) = Some ErrTooManyVars \<and>
   \<not> initialised twoPoints \<and>
   fst (Run exampleQR twoPoints) = Some ErrNotEnoughData"
proof -
  have i1: "initialised wideCrossed"
    by (simp add: wideCrossed_def AddCross_def Train_def Regression0_def wideData_def Let_def)
  have c1: "crosses wideCrossed = [MultiplierCross [0, 1]]"
    by (simp add: wideCrossed_def AddCross_def Train_def Regression0_def wideData_def Let_def)
  have d1: "Data wideCrossed =
      mkDataPoint 1 [1, 2, 3] # [mkDataPoint 2 [4, 5, 6], mkDataPoint 3 [7, 8, 9]]"
    by (simp add: wideCrossed_def AddCross_def Train_def Regression0_def wideData_def Let_def)
  have a1: "applyCrosses wideCrossed = Inr wideCrossed"
    by (simp add: applyCrosses_def c1 d1 mkDataPoint_def MultiplierCross_def)
  have l1: "length (Data wideCrossed) <
      length (Variables (mkDataPoint 1 [1, 2, 3])) + length (Crosses (mkDataPoint 1 [1, 2, 3])) + 1"
    by (simp add: d1 mkDataPoint_def)
  from Run_too_many_vars [of wideCrossed "mkDataPoint 1 [1, 2, 3]"
      "[mkDataPoint 2 [4, 5, 6], mkDataPoint 3 [7, 8, 9]]" exampleQR] i1 a1 d1 l1
  have r1: "fst (Run exampleQR wideCrossed) = Some ErrTooManyVars" by blast
  let ?s = "Train Regression0 storedCrosses"
  have i2: "initialised ?s"
    by (simp add: Train_def Regression0_def storedCrosses_def Let_def)
  have a2: "applyCrosses ?s = Inr ?s"
    by (simp add: applyCrosses_def Train_def Regression0_def Let_def)
  have d2: "Data ?s = hd storedCrosses # tl storedCrosses"
    by (simp add: Train_def Regression0_def storedCrosses_def Let_def)
  have l2: "length (Data ?s) <
      length (Variables (hd storedCrosses)) + length (Crosses (hd storedCrosses)) + 1"
    by (simp add: Train_def Regression0_def storedCrosses_def Let_def)
  from Run_too_many_vars [of ?s "hd storedCrosses" "tl storedCrosses" exampleQR] i2 a2 d2 l2
  have r2: "fst (Run exampleQR ?s) = Some ErrTooManyVars" by blast
  have i3: "\<not> initialised twoPoints"
    by (simp add: twoPoints_def AddCross_def Train_def Regression0_def Let_def)
  from Run_too_many_vars [of twoPoints "mkDataPoint 0 []" "[]" exampleQR] i3
  have r3: "fst (Run exampleQR twoPoints) = Some ErrNotEnoughData" by blast
  from i1 c1 a1 d1 l1 r1 i2 a2 d2 l2 r2 i3 r3 show ?thesis by (intro conjI)
qed

section \<open>Coefficient table\<close>

lemma map_of_setCoeffs:
  "map_of (setCoeffs i c m) k =
     (if int i \<le> k \<and> k < int (i + length c) then Some (c ! nat (k - int i)) else map_of m k)"
proof (induction c arbitrary: i m)
  case Nil
  then show ?case by auto
next
  case (Cons val vals)
  show ?case
  proof (cases "k = int i")
    case True
    with Cons.IH [of "Suc i" "(int i, val) # m"] show ?thesis by simp
  next
    case False
    then have "int i \<le> k \<Longrightarrow> nat (k - int i) = Suc (nat (k - int (Suc i)))" by simp
    with False Cons.IH [of "Suc i" "(int i, val) # m"] show ?thesis by auto
  qed
qed

lemma keys_setCoeffs:
  "set (map fst (setCoeffs i c m)) = int ` {i..<i + length c} \<union> set (map fst m)"
proof (induction c arbitrary: i m)
  case Nil
  then show ?case by simp
next
  case (Cons val vals)
  have "{i..<i + length (val # vals)} = insert i {Suc i..<Suc i + length vals}" by auto
  then have "int ` {i..<i + length (val # vals)} =
      insert (int i) (int ` {Suc i..<Suc i + length vals})"
    by (simp only: image_insert)
  moreover have "set (map fst (setCoeffs (Suc i) vals ((int i, val) # m))) =
      int ` {Suc i..<Suc i + length vals} \<union> set (map fst ((int i, val) # m))"
    by (rule Cons.IH)
  ultimately show ?case by auto
qed

lemma len_setCoeffs: "len (setCoeffs 0 c []) = length c"
proof -
  have "len (setCoeffs 0 c []) = card (int ` {0..<length c})"
    by (simp add: len_def length_remdups_card_conv keys_setCoeffs del: set_map)
  also have "\<dots> = length c" by (simp add: card_image)
  finally show ?thesis .
qed

lemma lookup_setCoeffs:
  "lookup (setCoeffs 0 c []) k = (if 0 \<le> k \<and> k < int (length c) then c ! nat k else 0)"
  by (simp add: lookup_def map_of_setCoeffs)

lemma Coeff_setCoeffs:
  "coeff r = setCoeffs 0 c [] \<Longrightarrow>
   Coeff r k = (if 0 \<le> k \<and> k < int (length c) then c ! nat k else 0)"
  by (simp add: Coeff_def len_setCoeffs lookup_setCoeffs)

lemma GetCoeffs_setCoeffs: "coeff r = setCoeffs 0 c [] \<Longrightarrow> GetCoeffs r = c"
  by (auto simp: GetCoeffs_def len_setCoeffs lookup_setCoeffs intro: nth_equalityI)

section \<open>Predict\<close>

lemma accumulate_sum:
  "accumulate r j vals p = p + (\<Sum>i\<leftarrow>[0..<length vals]. Coeff r (int (j + i) + 1) * vals ! i)"
proof (induction vals arbitrary: j p)
  case Nil
  then show ?case by simp
next
  case (Cons val vals)
  have "[0..<length (val # vals)] = 0 # map Suc [0..<length vals]"
    by (simp add: upt_conv_Cons map_Suc_upt del: upt_Suc)
  then show ?case by (simp add: Cons.IH comp_def algebra_simps del: upt_Suc)
qed

lemma extend_prefix: "extend cs vars = Some ext \<Longrightarrow> take (length vars) ext = vars"
proof (induction cs arbitrary: vars)
  case Nil
  then show ?case by simp
next
  case (Cons c cs)
  then obtain out where out: "c vars = Some out" and ext: "extend cs (vars @ out) = Some ext"
    by (auto split: option.splits)
  from Cons.IH [OF ext] have "take (length vars) (take (length (vars @ out)) ext) = take (length vars) (vars @ out)"
    by simp
  then show ?case by (simp add: min_def)
qed

lemma extend_snoc:
  "extend (cs @ [c]) vars =
     (case extend cs vars of
        None \<Rightarrow> None
      | Some ext \<Rightarrow> (case c ext of None \<Rightarrow> None | Some out \<Rightarrow> Some (ext @ out)))"
  by (induction cs arbitrary: vars) (auto split: option.splits)

lemma extend_input_only:
  assumes "\<forall>c\<in>set cs. \<forall>ys. c (vars @ ys) = c vars"
  shows "extend cs vars =
           (if \<forall>c\<in>set cs. c vars \<noteq> None
            then Some (vars @ concat (map (\<lambda>c. the (c vars)) cs)) else None)"
  using assms
proof (induction cs rule: rev_induct)
  case Nil
  then show ?case by simp
next
  case (snoc c cs)
  then show ?case by (auto simp: extend_snoc split: option.splits)
qed

lemma multiply_input_only:
  "\<forall>i\<in>set idx. i < int (length vars) \<Longrightarrow> multiply idx (vars @ ys) p = multiply idx vars p"
  by (induction idx arbitrary: p) (auto simp: nth_append)

text \<open>
  Claim C6. When the model is ready, \<^verbatim>\<open>Predict(vars)\<close> returns
  \<open>Coeff 0 + \<Sum>j. Coeff (j + 1) * extended[j]\<close>, where \<open>extended\<close> is the input vector
  (it stays the prefix) followed by the output of every registered cross, in
  registration order; it panics when a cross panics. Each cross is handed the vector as
  extended so far (\<open>extend_snoc\<close>); for crosses that read positions of the input only,
  such as a \<^verbatim>\<open>MultiplierCross\<close> with indices inside the input (\<open>multiply_input_only\<close>),
  \<open>extended\<close> is the input followed by the outputs of the crosses on the input itself.
  A fitted coefficient table holds the entries \<open>0 .. length c - 1\<close> of the solution \<open>c\<close>;
  \<^verbatim>\<open>Coeff\<close> at an index from \<open>length c\<close> on is 0, so such a term adds nothing to the sum.
\<close>

theorem Predict_linear:
  assumes "Ready r"
  shows "Predict r vars =
     (case extend (crosses r) vars of
        None \<Rightarrow> Inl Panic
      | Some ext \<Rightarrow>
          Inr (Coeff r 0 + (\<Sum>j\<leftarrow>[0..<length ext]. Coeff r (int j + 1) * ext ! j))) \<and>
   (\<forall>ext. extend (crosses r) vars = Some ext \<longrightarrow> take (length vars) ext = vars) \<and>
   ((\<forall>c\<in>set (crosses r). \<forall>ys. c (vars @ ys) = c vars) \<and>
    (\<forall>c\<in>set (crosses r). c vars \<noteq> None) \<longrightarrow>
      extend (crosses r) vars = Some (vars @ concat (map (\<lambda>c. the (c vars)) (crosses r)))) \<and>
   (\<forall>c i. coeff r = setCoeffs 0 c [] \<and> int (length c) \<le> i \<longrightarrow> Coeff r i = 0)"
proof (intro conjI)
  show "Predict r vars =
     (case extend (crosses r) vars of
        None \<Rightarrow> Inl Panic
      | Some ext \<Rightarrow>
          Inr (Coeff r 0 + (\<Sum>j\<leftarrow>[0..<length ext]. Coeff r (int j + 1) * ext ! j)))"
    using assms by (simp add: Predict_def accumulate_sum split: option.splits)
  show "\<forall>ext. extend (crosses r) vars = Some ext \<longrightarrow> take (length vars) ext = vars"
    by (simp add: extend_prefix)
  show "(\<forall>c\<in>set (crosses r). \<forall>ys. c (vars @ ys) = c vars) \<and>
    (\<forall>c\<in>set (crosses r). c vars \<noteq> None) \<longrightarrow>
      extend (crosses r) vars = Some (vars @ concat (map (\<lambda>c. the (c vars)) (crosses r)))"
  proof
    assume a: "(\<forall>c\<in>set (crosses r). \<forall>ys. c (vars @ ys) = c vars) \<and>
      (\<forall>c\<in>set (crosses r). c vars \<noteq> None)"
    then have "\<forall>c\<in>set (crosses r). \<forall>ys. c (vars @ ys) = c vars" ..
    from extend_input_only [OF this] a
    show "extend (crosses r) vars = Some (vars @ concat (map (\<lambda>c. the (c vars)) (crosses r)))"
      by simp
  qed
  show "\<forall>c i. coeff r = setCoeffs 0 c [] \<and> int (length c) \<le> i \<longrightarrow> Coeff r i = 0"
    by (auto simp: Coeff_setCoeffs)
qed

theorem Predict_linear_witness:
  "Ready readyExample \<and>
   extend (crosses readyExample) [3] = Some [3, 9, 27] \<and>
   Predict readyExample [3] = Inr (2 + (1 * 3 + (0 * 9 + 0 * 27))) \<and>
   extend (crosses readyExample) [3, 2] = Some ([3, 2] @ [3 * 3] @ [3 * 2]) \<and>
   coeff readyExample = setCoeffs 0 [2, 1] [] \<and> Coeff readyExample 2 = 0"
proof -
  have r: "Ready readyExample" by (simp add: readyExample_def)
  have e: "extend (crosses readyExample) [3] = Some [3, 9, 27]"
    by (simp add: readyExample_def MultiplierCross_def)
  have c: "coeff readyExample = setCoeffs 0 [2, 1] []" by (simp add: readyExample_def)
  have c1: "Coeff readyExample 1 = 1" using Coeff_setCoeffs [OF c, of 1] by simp
  have c0: "Coeff readyExample 0 = 2" using Coeff_setCoeffs [OF c, of 0] by simp
  note th = Predict_linear [OF r, of "[3]"]
  from th have z: "\<forall>c i. coeff readyExample = setCoeffs 0 c [] \<and> int (length c) \<le> i \<longrightarrow>
      Coeff readyExample i = 0"
    by (elim conjE)
  from z have z': "\<And>i. coeff readyExample = setCoeffs 0 [2, 1] [] \<and>
      int (length [2 :: float64, 1]) \<le> i \<Longrightarrow> Coeff readyExample i = 0"
    by blast
  have z2: "Coeff readyExample 2 = 0" by (rule z') (simp add: readyExample_def)
  have z3: "Coeff readyExample 3 = 0" by (rule z') (simp add: readyExample_def)
  from th have "Predict readyExample [3] =
     (case extend (crosses readyExample) [3] of
        None \<Rightarrow> Inl Panic
      | Some ext \<Rightarrow>
          Inr (Coeff readyExample 0 +
            (\<Sum>j\<leftarrow>[0..<length ext]. Coeff readyExample (int j + 1) * ext ! j)))"
    by (elim conjE)
  then have "Predict readyExample [3] =
      Inr (Coeff readyExample 0 + (Coeff readyExample 1 * 3 +
        (Coeff readyExample 2 * 9 + Coeff readyExample 3 * 27)))"
    by (simp add: e)
  then have p: "Predict readyExample [3] = Inr (2 + (1 * 3 + (0 * 9 + 0 * 27)))"
    by (simp add: c0 c1 z2 z3)
  have cs: "crosses readyExample = [MultiplierCross [0, 0], MultiplierCross [0, 1]]"
    by (simp add: readyExample_def)
  have io: "(\<forall>c\<in>set (crosses readyExample). \<forall>ys. c ([3, 2] @ ys) = c [3, 2]) \<and>
      (\<forall>c\<in>set (crosses readyExample). c [3, 2] \<noteq> None)"
    by (simp add: cs MultiplierCross_def)
  from Predict_linear [OF r, of "[3, 2]"]
  have "(\<forall>c\<in>set (crosses readyExample). \<forall>ys. c ([3, 2] @ ys) = c [3, 2]) \<and>
      (\<forall>c\<in>set (crosses readyExample). c [3, 2] \<noteq> None) \<longrightarrow>
    extend (crosses readyExample) [3, 2] =
      Some ([3, 2] @ concat (map (\<lambda>c. the (c [3, 2])) (crosses readyExample)))"
    by (elim conjE)
  with io have "extend (crosses readyExample) [3, 2] =
      Some ([3, 2] @ concat (map (\<lambda>c. the (c [3, 2])) (crosses readyExample)))"
    by (rule rev_mp)
  then have e2: "extend (crosses readyExample) [3, 2] = Some ([3, 2] @ [3 * 3] @ [3 * 2])"
    by (simp add: cs MultiplierCross_def)
  from r e p e2 c z2 show ?thesis by (intro conjI)
qed

section \<open>MakeDataPoints\<close>

lemma firstColumn_rows:
  "\<forall>row\<in>set a. row \<noteq> [] \<Longrightarrow> firstColumn a = Inr (map (withoutColumn 0) a)"
  by (induction a) (auto simp: withoutColumn_def split: list.splits)

lemma lastColumn_rows:
  "\<forall>row\<in>set a. length row = k + 1 \<Longrightarrow> lastColumn (int k) a = Inr (map (withoutColumn k) a)"
  by (induction a) (auto simp: withoutColumn_def)

lemma others_skip:
  "i \<le> k \<Longrightarrow> others i k cs = take (nat (k - i)) cs @ drop (nat (k - i) + 1) cs"
proof (induction cs arbitrary: i)
  case Nil
  then show ?case by simp
next
  case (Cons c cs)
  show ?case
  proof (cases "i = k")
    case True
    have "others (k + 1) k cs = cs"
    proof -
      have "\<And>j. k < j \<Longrightarrow> others j k cs = cs" by (induction cs) auto
      then show ?thesis by simp
    qed
    with True show ?thesis by simp
  next
    case False
    with Cons.prems have lt: "i + 1 \<le> k" by simp
    have "nat (k - i) = Suc (nat (k - (i + 1)))" using lt by simp
    with Cons.IH [OF lt] False show ?thesis by simp
  qed
qed

lemma perverse_rows:
  "\<forall>row\<in>set a. k < length row \<Longrightarrow>
   perverseMakeDataPoints a (int k) = Inr (map (withoutColumn k) a)"
  by (induction a) (auto simp: withoutColumn_def others_skip)

text \<open>On an empty table there is no column to designate; with \<^verbatim>\<open>obsIndex\<close> other than 0
  the guard reads \<^verbatim>\<open>a[0]\<close> and panics.\<close>

lemma MakeDataPoints_empty_table: "MakeDataPoints [] 0 = Inr [] \<and> MakeDataPoints [] 1 = Inl Panic"
  by (simp add: MakeDataPoints_def)

text \<open>
  Claim C9. For a table \<open>a\<close> with at least one row, all rows of the same length \<open>n\<close>,
  and an observed-column index inside the row (first, last or interior),
  \<^verbatim>\<open>MakeDataPoints\<close> returns one record per row, in row order; its \<^verbatim>\<open>Observed\<close> is the
  row's element at the index and its \<^verbatim>\<open>Variables\<close> are the elements before the index
  followed by the elements after it. The other fields of the record are the zero
  values of the struct literal.
\<close>

theorem MakeDataPoints_rows:
  assumes "a \<noteq> []" and "\<forall>row\<in>set a. length row = n" and "0 \<le> obsIndex" and "obsIndex < int n"
  shows "MakeDataPoints a obsIndex =
           Inr (map (\<lambda>row. \<lparr>Observed = row ! nat obsIndex,
                            Variables = take (nat obsIndex) row @ drop (nat obsIndex + 1) row,
                            Crosses = [], Predicted = 0, Error = 0\<rparr>) a)"
proof -
  define k where "k = nat obsIndex"
  with assms have k: "obsIndex = int k" "k < n" by simp_all
  obtain a0 rest where a: "a = a0 # rest" using assms(1) by (cases a) auto
  with assms(2) have a0: "length a0 = n" by simp
  have rows: "\<forall>row\<in>set a. k < length row" using assms(2) k by simp
  have goal: "MakeDataPoints a (int k) = Inr (map (withoutColumn k) a)"
  proof (cases "k = 0")
    case True
    with rows have "\<forall>row\<in>set a. row \<noteq> []" by auto
    with True show ?thesis by (simp add: MakeDataPoints_def firstColumn_rows)
  next
    case False
    show ?thesis
    proof (cases "k = n - 1")
      case True
      with k have "\<forall>row\<in>set a. length row = k + 1" using assms(2) by simp
      then have "lastColumn (int k) a = Inr (map (withoutColumn k) a)" by (rule lastColumn_rows)
      moreover have "int (length a0) - 1 = int k" using a0 True k by simp
      ultimately show ?thesis using False a by (simp add: MakeDataPoints_def)
    next
      case ne: False
      then have "int k \<noteq> int (length a0) - 1" using a0 k by auto
      with False a perverse_rows [OF rows] show ?thesis by (simp add: MakeDataPoints_def)
    qed
  qed
  then show ?thesis by (simp add: k withoutColumn_def mkDataPoint_def)
qed

theorem MakeDataPoints_rows_witness:
  "MakeDataPoints [[1, 2, 3, 4], [2, 2, 3, 4], [3, 2, 3, 4]] 1 =
     Inr [\<lparr>Observed = 2, Variables = [1, 3, 4], Crosses = [], Predicted = 0, Error = 0\<rparr>,
          \<lparr>Observed = 2, Variables = [2, 3, 4], Crosses = [], Predicted = 0, Error = 0\<rparr>,
          \<lparr>Observed = 2, Variables = [3, 3, 4], Crosses = [], Predicted = 0, Error = 0\<rparr>] \<and>
   MakeDataPoints [[1, 2, 3, 4], [2, 2, 3, 4], [3, 2, 3, 4]] 0 =
     Inr [\<lparr>Observed = 1, Variables = [2, 3, 4], Crosses = [], Predicted = 0, Error = 0\<rparr>,
          \<lparr>Observed = 2, Variables = [2, 3, 4], Crosses = [], Predicted = 0, Error = 0\<rparr>,
          \<lparr>Observed = 3, Variables = [2, 3, 4], Crosses = [], Predicted = 0, Error = 0\<rparr>] \<and>
   MakeDataPoints [[1, 2, 3, 4], [2, 2, 3, 4], [3, 2, 3, 4]] 3 =
     Inr [\<lparr>Observed = 4, Variables = [1, 2, 3], Crosses = [], Predicted = 0, Error = 0\<rparr>,
          \<lparr>Observed = 4, Variables = [2, 2, 3], Crosses = [], Predicted = 0, Error = 0\<rparr>,
          \<lparr>Observed = 4, Variables = [3, 2, 3], Crosses = [], Predicted = 0, Error = 0\<rparr>]"
  using MakeDataPoints_rows [of "[[1, 2, 3, 4], [2, 2, 3, 4], [3, 2, 3, 4]]" 4 1]
    MakeDataPoints_rows [of "[[1, 2, 3, 4], [2, 2, 3, 4], [3, 2, 3, 4]]" 4 0]
    MakeDataPoints_rows [of "[[1, 2, 3, 4], [2, 2, 3, 4], [3, 2, 3, 4]]" 4 3]
  by simp

section \<open>A successful fit\<close>

lemma backInner_length: "backInner reg i js c = Some c' \<Longrightarrow> length c' = length c"
  by (induction js arbitrary: c) (auto split: option.splits)

lemma backSubst_length: "backSubst qty reg n is c = Some c' \<Longrightarrow> length c' = length c"
proof (induction "is" arbitrary: c)
  case Nil
  then show ?case by simp
next
  case (Cons i "is")
  then show ?case
    by (auto simp: bind_eq_Some_conv dest!: backInner_length)
qed

lemma solve_length: "solve qr variables observed n = Some c \<Longrightarrow> length c = n"
  by (auto simp: solve_def bind_eq_Some_conv split: prod.splits dest!: backSubst_length)

lemma Run_success:
  assumes "fst (Run qr r) = None"
  obtains d0 rest c r4 where
    "initialised r" and "Data r = d0 # rest" and
    "length c = length (Variables d0) + length (Crosses d0) + 1" and
    "length c \<le> length (Data r)" and
    "calcPredicted (r\<lparr>Ready := True, coeff := setCoeffs 0 c []\<rparr>) = (None, r4)" and
    "snd (Run qr r) = calcR2 (calcVariance r4)"
proof -
  from assms have init: "initialised r" by (cases "initialised r") (simp_all add: Run_def)
  from assms init applyCrosses_cases [of r] have ok: "applyCrosses r = Inr r"
    by (auto simp: Run_def)
  from assms init ok obtain d0 rest where d: "Data r = d0 # rest"
    by (cases "Data r") (auto simp: Run_def)
  let ?n = "length (Variables d0) + length (Crosses d0)"
  from assms init ok d have le: "\<not> length (Data r) < ?n + 1"
    by (auto simp: Run_def Let_def split: if_splits)
  from assms init ok d le obtain observed variables where
    b: "buildMatrices (Data r) ?n = Some (observed, variables)"
    by (cases "buildMatrices (Data r) ?n") (auto simp: Run_def Let_def)
  from assms init ok d le b obtain c where c: "solve qr variables observed (?n + 1) = Some c"
    by (cases "solve qr variables observed (?n + 1)") (auto simp: Run_def Let_def)
  obtain e r4 where p: "calcPredicted (r\<lparr>Ready := True, coeff := setCoeffs 0 c []\<rparr>) = (e, r4)"
    by (cases "calcPredicted (r\<lparr>Ready := True, coeff := setCoeffs 0 c []\<rparr>)")
  from assms init ok d le b c p have e: "e = None" and s: "snd (Run qr r) = calcR2 (calcVariance r4)"
    by (auto simp: Run_def Let_def split: option.splits)
  from solve_length [OF c] le init d p e s show ?thesis
    by (intro that [of d0 rest c r4]) auto
qed

section \<open>Statistics\<close>







section \<open>The worked example\<close>

lemma example_build:
  "buildMatrices exampleData 1 = Some ([[6], [3], [4], [3]], [[1, 3], [1, 1], [1, 3], [1, 1]])"
  by (simp add: buildMatrices_def exampleData_def NewDense_def dense_Set_def mkDataPoint_def
        eval_nat_numeral)

lemma example_solve:
  "solve exampleQR [[1, 3], [1, 1], [1, 3], [1, 1]] [[6], [3], [4], [3]] 2 = Some [2, 1]"
  by (simp add: solve_def exampleQR_def exampleQ_def exampleR_def dense_Mul_def dense_T_def
        dense_cols_def dense_At_def upt_conv_Cons eval_nat_numeral)

lemma example_factorisation:
  "dense_Mul exampleQ exampleR = Some [[1, 3], [1, 1], [1, 3], [1, 1]] \<and>
   dense_Mul (dense_T exampleQ) exampleQ =
     Some [[1, 0, 0, 0], [0, 1, 0, 0], [0, 0, 1, 0], [0, 0, 0, 1]]"
  by (simp add: exampleQ_def exampleR_def dense_Mul_def dense_T_def dense_cols_def upt_conv_Cons)

lemma Run_steps:
  "initialised r \<Longrightarrow> applyCrosses r = Inr r \<Longrightarrow> Data r = d0 # rest \<Longrightarrow>
   numOfvars = length (Variables d0) + length (Crosses d0) \<Longrightarrow>
   \<not> length (Data r) < numOfvars + 1 \<Longrightarrow>
   buildMatrices (Data r) numOfvars = Some (observed, variables) \<Longrightarrow>
   solve qr variables observed (numOfvars + 1) = Some c \<Longrightarrow>
   calcPredicted (r\<lparr>Ready := True, coeff := setCoeffs 0 c []\<rparr>) = (None, r4) \<Longrightarrow>
   Run qr r = (None, calcR2 (calcVariance r4))"
  by (simp add: Run_def Let_def)

lemma example_Run:
  "Run exampleQR exampleRegression =
     (None,
      \<lparr>Data = [\<lparr>Observed = 6, Variables = [3], Crosses = [], Predicted = 5, Error = - 1\<rparr>,
               \<lparr>Observed = 3, Variables = [1], Crosses = [], Predicted = 3, Error = 0\<rparr>,
               \<lparr>Observed = 4, Variables = [3], Crosses = [], Predicted = 5, Error = 1\<rparr>,
               \<lparr>Observed = 3, Variables = [1], Crosses = [], Predicted = 3, Error = 0\<rparr>],
       coeff = [(1, 1), (0, 2)], R2 = 2 / 3, VarianceObserved = 3 / 2,
       VariancePredicted = 1, initialised = True, crosses = [MultiplierCross [0, 0]],
       Ready = True\<rparr>)"
proof -
  let ?r4 = "exampleRegression\<lparr>Ready := True, coeff := [(1, 1), (0, 2)],
       Data := [\<lparr>Observed = 6, Variables = [3], Crosses = [], Predicted = 5, Error = - 1\<rparr>,
               \<lparr>Observed = 3, Variables = [1], Crosses = [], Predicted = 3, Error = 0\<rparr>,
               \<lparr>Observed = 4, Variables = [3], Crosses = [], Predicted = 5, Error = 1\<rparr>,
               \<lparr>Observed = 3, Variables = [1], Crosses = [], Predicted = 3, Error = 0\<rparr>]\<rparr>"
  have data: "Data exampleRegression = exampleData"
    by (simp add: exampleRegression_def AddCross_def Train_def Regression0_def Let_def)
  have init: "initialised exampleRegression"
    by (simp add: exampleRegression_def AddCross_def Train_def Regression0_def Let_def
          exampleData_def)
  have ac: "applyCrosses exampleRegression = Inr exampleRegression"
    by (simp add: applyCrosses_def exampleRegression_def AddCross_def Train_def Regression0_def
          Let_def exampleData_def mkDataPoint_def MultiplierCross_def)
  have d0: "Data exampleRegression = mkDataPoint 6 [3] # tl exampleData"
    by (simp add: data exampleData_def)
  have n: "1 = length (Variables (mkDataPoint 6 [3])) + length (Crosses (mkDataPoint 6 [3]))"
    by (simp add: mkDataPoint_def)
  have le: "\<not> length (Data exampleRegression) < 1 + 1"
    by (simp add: data exampleData_def)
  have b: "buildMatrices (Data exampleRegression) 1 =
      Some ([[6], [3], [4], [3]], [[1, 3], [1, 1], [1, 3], [1, 1]])"
    by (simp only: data example_build)
  have s: "solve exampleQR [[1, 3], [1, 1], [1, 3], [1, 1]] [[6], [3], [4], [3]] (1 + 1) =
      Some [2, 1]"
    using example_solve by (simp add: numeral_2_eq_2)
  have pr: "calcPredicted (exampleRegression\<lparr>Ready := True, coeff := setCoeffs 0 [2, 1] []\<rparr>) =
      (None, ?r4)"
    by (simp add: calcPredicted_def data exampleData_def mkDataPoint_def Predict_def
          exampleRegression_def AddCross_def Train_def Regression0_def Let_def
          MultiplierCross_def Coeff_def len_def lookup_def)
  have run: "Run exampleQR exampleRegression = (None, calcR2 (calcVariance ?r4))"
    by (rule Run_steps [OF init ac d0 n le b s pr])
  have fin: "calcR2 (calcVariance ?r4) =
      \<lparr>Data = [\<lparr>Observed = 6, Variables = [3], Crosses = [], Predicted = 5, Error = - 1\<rparr>,
               \<lparr>Observed = 3, Variables = [1], Crosses = [], Predicted = 3, Error = 0\<rparr>,
               \<lparr>Observed = 4, Variables = [3], Crosses = [], Predicted = 5, Error = 1\<rparr>,
               \<lparr>Observed = 3, Variables = [1], Crosses = [], Predicted = 3, Error = 0\<rparr>],
       coeff = [(1, 1), (0, 2)], R2 = 2 / 3, VarianceObserved = 3 / 2,
       VariancePredicted = 1, initialised = True, crosses = [MultiplierCross [0, 0]],
       Ready = True\<rparr>"
    by (simp add: calcR2_def calcVariance_def Let_def exampleRegression_def AddCross_def
          Train_def Regression0_def exampleData_def power2_eq_square)
  show ?thesis by (simp only: run fin)
qed

text \<open>Four observations of one variable with three crosses of arity 1 registered: the
  observation count 4 is below 1 + 3 + 1, and \<^verbatim>\<open>Run\<close> fits without an error, because the
  stored \<^verbatim>\<open>Crosses\<close> are empty and only they are counted.\<close>

lemma registered_crosses_uncounted:
  "length (crosses threeCrosses) = 3 \<and>
   map Variables (Data threeCrosses) = [[3], [1], [3], [1]] \<and>
   map Crosses (Data threeCrosses) = [[], [], [], []] \<and>
   length (Data threeCrosses) < 1 + 3 + 1 \<and>
   fst (Run exampleQR threeCrosses) = None"
proof -
  have cs: "crosses threeCrosses =
      [MultiplierCross [0, 0], MultiplierCross [0, 0, 0], MultiplierCross [0, 0, 0, 0]]"
    by (simp add: threeCrosses_def exampleRegression_def AddCross_def Train_def Regression0_def
          Let_def)
  have data: "Data threeCrosses = exampleData"
    by (simp add: threeCrosses_def exampleRegression_def AddCross_def Train_def Regression0_def
          Let_def)
  have init: "initialised threeCrosses"
    by (simp add: threeCrosses_def exampleRegression_def AddCross_def Train_def Regression0_def
          Let_def exampleData_def)
  have ac: "applyCrosses threeCrosses = Inr threeCrosses"
    by (simp add: applyCrosses_def cs data exampleData_def mkDataPoint_def MultiplierCross_def)
  have d0: "Data threeCrosses = mkDataPoint 6 [3] # tl exampleData"
    by (simp add: data exampleData_def)
  have n: "1 = length (Variables (mkDataPoint 6 [3])) + length (Crosses (mkDataPoint 6 [3]))"
    by (simp add: mkDataPoint_def)
  have le: "\<not> length (Data threeCrosses) < 1 + 1"
    by (simp add: data exampleData_def)
  have b: "buildMatrices (Data threeCrosses) 1 =
      Some ([[6], [3], [4], [3]], [[1, 3], [1, 1], [1, 3], [1, 1]])"
    by (simp only: data example_build)
  have s: "solve exampleQR [[1, 3], [1, 1], [1, 3], [1, 1]] [[6], [3], [4], [3]] (1 + 1) =
      Some [2, 1]"
    using example_solve by (simp add: numeral_2_eq_2)
  let ?r3 = "threeCrosses\<lparr>Ready := True, coeff := setCoeffs 0 [2, 1] []\<rparr>"
  have "fst (calcPredicted ?r3) = None"
    by (simp add: calcPredicted_def data exampleData_def mkDataPoint_def Predict_def cs
          MultiplierCross_def split: prod.splits)
  then have pr: "calcPredicted ?r3 = (None, snd (calcPredicted ?r3))"
    by (metis prod.collapse)
  have "Run exampleQR threeCrosses = (None, calcR2 (calcVariance (snd (calcPredicted ?r3))))"
    by (rule Run_steps [OF init ac d0 n le b s pr])
  then have run: "fst (Run exampleQR threeCrosses) = None" by simp
  show ?thesis
    using run by (simp add: cs data exampleData_def mkDataPoint_def)
qed


section \<open>Feature crosses in a fit\<close>

lemma Run_keeps_Crosses: "map Crosses (Data (snd (Run qr r))) = map Crosses (Data r)"
  using Run_fitted [of r qr] by (simp add: fitted_def)

lemma calcPredicted_coeff: "calcPredicted r = (e, r') \<Longrightarrow> coeff r' = coeff r"
  by (auto simp: calcPredicted_def split: prod.splits)

lemma Run_coefficients:
  assumes "fst (Run qr r) = None"
  shows "\<exists>d0 rest. Data r = d0 # rest \<and>
    coeff (snd (Run qr r)) = setCoeffs 0 (GetCoeffs (snd (Run qr r))) [] \<and>
    length (GetCoeffs (snd (Run qr r))) = 1 + length (Variables d0) + length (Crosses d0)"
proof -
  from assms obtain d0 rest c r4 where
    d: "Data r = d0 # rest" and
    n: "length c = length (Variables d0) + length (Crosses d0) + 1" and
    p: "calcPredicted (r\<lparr>Ready := True, coeff := setCoeffs 0 c []\<rparr>) = (None, r4)" and
    s: "snd (Run qr r) = calcR2 (calcVariance r4)"
    by (rule Run_success)
  from calcPredicted_coeff [OF p] have "coeff (snd (Run qr r)) = setCoeffs 0 c []"
    by (simp add: s calcR2_def calcVariance_def Let_def)
  with GetCoeffs_setCoeffs [of "snd (Run qr r)" c] d n show ?thesis by simp
qed

lemma example_crosses: "crosses exampleRegression = [MultiplierCross [0, 0]]"
  by (simp add: exampleRegression_def AddCross_def Train_def Regression0_def Let_def)

text \<open>
  Claim C1 (the code departs from it). The claim: after a successful \<^verbatim>\<open>Run\<close> on a
  regression with a registered cross, every stored observation has its \<^verbatim>\<open>Crosses\<close>
  filled with the outputs of the registered crosses on its variables, written to the
  stored observation itself. In the worked example one cross is registered and \<^verbatim>\<open>Run\<close>
  returns \<^verbatim>\<open>nil\<close>, yet every stored \<^verbatim>\<open>Crosses\<close> is still empty, while the cross
  evaluates to \<open>[9]\<close>, \<open>[1]\<close>, \<open>[9]\<close>, \<open>[1]\<close> on the stored variables. The loop of
  \<^verbatim>\<open>applyCrosses\<close> assigns to the loop variable, a copy; \<open>Run_keeps_Crosses\<close> shows
  that no call of \<^verbatim>\<open>Run\<close> ever changes a stored \<^verbatim>\<open>Crosses\<close>.
\<close>

theorem crosses_not_stored:
  "fst (Run exampleQR exampleRegression) = None \<and>
   crosses exampleRegression = [MultiplierCross [0, 0]] \<and>
   map Crosses (Data (snd (Run exampleQR exampleRegression))) = [[], [], [], []] \<and>
   map (MultiplierCross [0, 0]) (map Variables (Data (snd (Run exampleQR exampleRegression)))) =
     [Some [9], Some [1], Some [9], Some [1]]"
  by (simp add: example_Run example_crosses MultiplierCross_def)

text \<open>
  Claim C2 (the code departs from it). The claim: after a successful fit on observations
  of \<open>v\<close> variables with registered crosses of total arity \<open>k\<close>, \<^verbatim>\<open>GetCoeffs\<close> has
  length \<open>1 + v + k\<close>. In the worked example \<open>v = 1\<close> and one cross of arity 1 is
  registered, so the claim asks for 3 coefficients; \<^verbatim>\<open>GetCoeffs\<close> returns the 2
  coefficients \<open>[2, 1]\<close>, and \<^verbatim>\<open>Coeff(2)\<close>, the coefficient of the cross term, is the
  default 0. By \<open>Run_coefficients\<close> the count is always 1 + the number of variables +
  the number of cross values already stored on the first observation.
\<close>

theorem coefficient_count_without_crosses:
  "fst (Run exampleQR exampleRegression) = None \<and>
   crosses exampleRegression = [MultiplierCross [0, 0]] \<and>
   MultiplierCross [0, 0] [3] = Some [9] \<and>
   map Variables (Data (snd (Run exampleQR exampleRegression))) = [[3], [1], [3], [1]] \<and>
   GetCoeffs (snd (Run exampleQR exampleRegression)) = [2, 1] \<and>
   Coeff (snd (Run exampleQR exampleRegression)) 2 = 0"
  by (simp add: example_Run example_crosses MultiplierCross_def GetCoeffs_def Coeff_def len_def
        lookup_def upt_conv_Cons)

section \<open>The design matrix\<close>

text \<open>
  Claim C4 (the code departs from it). The claim: the design matrix has the rows
  \<open>[1, variables, cross outputs]\<close>. For three observations \<open>(x, x\<^sup>2)\<close> that carry their
  cross value, \<^verbatim>\<open>Run\<close> builds the rows \<open>[1, x\<^sup>2, 0]\<close> where the claim has
  \<open>[1, x, x\<^sup>2]\<close>: the cross values are written from column \<open>v\<close> on, not \<open>v + 1\<close>, over
  the last variable, and the last column stays 0. In the worked example, where the cross
  is registered and the observations carry no cross values, the matrix has no cross
  column at all. The lemmas \<open>buildMatrices_rows\<close>, \<open>designRow_no_crosses\<close> and
  \<open>designRow_crosses\<close> below give the rows in general; the target vector and the rows of
  observations without cross values are as the claim says.
\<close>

theorem design_matrix_columns:
  "buildMatrices crossedData (1 + 1) =
     Some ([[7], [9], [13]], [[1, 4, 0], [1, 9, 0], [1, 25, 0]]) \<and>
   buildMatrices (Data (snd (Run exampleQR exampleRegression))) (1 + 0) =
     Some ([[6], [3], [4], [3]], [[1, 3], [1, 1], [1, 3], [1, 1]])"
  by (simp add: example_Run buildMatrices_def crossedData_def NewDense_def dense_Set_def eval_nat_numeral)

lemma setVariables_row:
  "i < length m \<Longrightarrow> j + length vals < length (m ! i) \<Longrightarrow>
   setVariables m i j vals =
     Some (m[i := take (j + 1) (m ! i) @ vals @ drop (j + 1 + length vals) (m ! i)])"
proof (induction vals arbitrary: m j)
  case Nil
  then show ?case by simp
next
  case (Cons val vals)
  let ?row = "m ! i"
  let ?m' = "m[i := ?row[j + 1 := val]]"
  from Cons.prems have set: "dense_Set m i (j + 1) val = Some ?m'"
    by (simp add: dense_Set_def)
  from Cons.prems have i': "i < length ?m'" and j': "(j + 1) + length vals < length (?m' ! i)"
    by simp_all
  have tk: "take (j + 1 + 1) (?row[j + 1 := val]) = take (j + 1) ?row @ [val]"
    using Cons.prems by (simp add: take_Suc_conv_app_nth)
  have dr: "drop (j + 1 + 1 + length vals) (?row[j + 1 := val]) =
      drop (j + 1 + length (val # vals)) ?row"
    by simp
  from Cons.IH [OF i' j'] Cons.prems(1) tk dr set show ?case
    by simp
qed

lemma setCrosses_row:
  "i < length m \<Longrightarrow> lenVars + j + length vals \<le> length (m ! i) \<Longrightarrow>
   setCrosses m i lenVars j vals =
     Some (m[i := take (lenVars + j) (m ! i) @ vals @ drop (lenVars + j + length vals) (m ! i)])"
proof (induction vals arbitrary: m j)
  case Nil
  then show ?case by simp
next
  case (Cons val vals)
  let ?row = "m ! i"
  let ?m' = "m[i := ?row[lenVars + j := val]]"
  from Cons.prems have set: "dense_Set m i (lenVars + j) val = Some ?m'"
    by (simp add: dense_Set_def)
  from Cons.prems have i': "i < length ?m'"
    and j': "lenVars + (j + 1) + length vals \<le> length (?m' ! i)"
    by simp_all
  have tk: "take (lenVars + (j + 1)) (?row[lenVars + j := val]) = take (lenVars + j) ?row @ [val]"
    using Cons.prems by (simp add: take_Suc_conv_app_nth)
  have dr: "drop (lenVars + (j + 1) + length vals) (?row[lenVars + j := val]) =
      drop (lenVars + j + length (val # vals)) ?row"
    by simp
  from Cons.IH [OF i' j'] Cons.prems(1) tk dr show ?case
    by (simp add: set)
qed

lemma take_cons_append: "length xs = v \<Longrightarrow> take v (a # xs @ ys) = take v (a # xs)"
  by (cases v) auto

lemma drop_cons_replicate: "drop n (x # replicate n x) = [x]"
  by (induction n) simp_all

lemma fillRows_rows:
  assumes "\<forall>d\<in>set ds. length (Variables d) = v \<and> length (Crosses d) = k"
    and "length doneO = i" and "length doneV = i"
  shows "fillRows ds i (doneO @ replicate (length ds) [0])
           (doneV @ replicate (length ds) (replicate (v + k + 1) 0)) =
         Some (doneO @ map (\<lambda>d. [Observed d]) ds, doneV @ map designRow ds)"
  using assms
proof (induction ds arbitrary: i doneO doneV)
  case Nil
  then show ?case by simp
next
  case (Cons d ds)
  let ?O = "doneO @ replicate (length (d # ds)) [0]"
  let ?V = "doneV @ replicate (length (d # ds)) (replicate (v + k + 1) 0)"
  from Cons.prems have v: "length (Variables d) = v" and k: "length (Crosses d) = k" by simp_all
  have o1: "dense_Set ?O i 0 (Observed d) =
      Some ((doneO @ [[Observed d]]) @ replicate (length ds) [0])"
    using Cons.prems by (simp add: dense_Set_def nth_append list_update_append)
  let ?V1 = "doneV @ (1 # replicate (v + k) 0) # replicate (length ds) (replicate (v + k + 1) 0)"
  have v1: "dense_Set ?V i 0 1 = Some ?V1"
    using Cons.prems by (simp add: dense_Set_def nth_append list_update_append)
  let ?V2 = "doneV @ (1 # Variables d @ replicate k 0)
      # replicate (length ds) (replicate (v + k + 1) 0)"
  have v2: "setVariables ?V1 i 0 (Variables d) = Some ?V2"
    using Cons.prems v
    by (subst setVariables_row) (simp_all add: nth_append list_update_append)
  let ?V3 = "(doneV @ [designRow d]) @ replicate (length ds) (replicate (v + k + 1) 0)"
  have v3: "setCrosses ?V2 i (length (Variables d)) 0 (Crosses d) = Some ?V3"
    using Cons.prems v k
    by (subst setCrosses_row) (simp_all add: nth_append list_update_append designRow_def Let_def take_cons_append)
  have rest: "fillRows ds (i + 1) ((doneO @ [[Observed d]]) @ replicate (length ds) [0]) ?V3 =
      Some ((doneO @ [[Observed d]]) @ map (\<lambda>d. [Observed d]) ds,
            (doneV @ [designRow d]) @ map designRow ds)"
    using Cons.prems by (intro Cons.IH) simp_all
  show ?case
    by (simp only: fillRows.simps o1 v1 v2 v3 rest bind.simps) simp
qed

lemma buildMatrices_rows:
  assumes "\<forall>d\<in>set ds. length (Variables d) = v \<and> length (Crosses d) = k"
  shows "buildMatrices ds (v + k) = Some (map (\<lambda>d. [Observed d]) ds, map designRow ds)"
  using fillRows_rows [OF assms, of "[]" 0 "[]"] by (simp add: buildMatrices_def NewDense_def)

lemma designRow_no_crosses: "Crosses d = [] \<Longrightarrow> designRow d = 1 # Variables d"
  by (simp add: designRow_def Let_def)

lemma designRow_crosses:
  "Crosses d \<noteq> [] \<Longrightarrow>
   designRow d = take (length (Variables d)) (1 # Variables d) @ Crosses d @ [0]"
  by (cases "Crosses d") (simp_all add: designRow_def Let_def drop_cons_replicate)

end
